theory Spec2Isabelle
  imports Complex_Main "HOL-Library.Multiset" "HOL-Library.AList"
begin

section \<open>JavaScript values\<close>

text \<open>
  The engine reads a session state and rule operands of static type \<open>unknown\<close>, so the
  run-time value is what the code inspects (\<open>typeof\<close>, \<open>Array.isArray\<close>, \<open>in\<close>,
  \<open>===\<close>).  The values are the primitives, arrays and plain objects, and what a walk
  along member names reaches from them: the built-in functions that arrays and objects
  inherit, and the two prototype objects \<open>Object.prototype\<close> and \<open>Array.prototype\<close>.
  Arrays and objects carry the address of their allocation, because \<open>===\<close> and
  \<open>Array.prototype.includes\<close> compare them by identity; an object is the association
  list of its own properties and its prototype is \<open>Object.prototype\<close>, the prototype of
  an array is \<open>Array.prototype\<close>.  A built-in function is identified by its name.

  A number is an IEEE double.  The engine never computes with the numbers it reads from
  \<open>unknown\<close> values, it only compares them, and on finite doubles the comparisons agree
  with those of the rationals; the three special values are kept apart.
\<close>

datatype jsnum = Fin rat | NaN | PosInf | NegInf

datatype jsval =
    JUndefined
  | JNull
  | JBool bool
  | JNum jsnum
  | JStr string
  | JArr nat "jsval list"
  | JObj nat "(string \<times> jsval) list"
  | JFun string
  | JObjectPrototype
  | JArrayPrototype

datatype error = TypeError string | Error string

text \<open>\<open>a < b\<close> on two numbers; every comparison with \<open>NaN\<close> is false.\<close>

fun num_lt :: "jsnum \<Rightarrow> jsnum \<Rightarrow> bool" where
  "num_lt NaN _ = False"
| "num_lt _ NaN = False"
| "num_lt (Fin a) (Fin b) = (a < b)"
| "num_lt (Fin _) PosInf = True"
| "num_lt (Fin _) NegInf = False"
| "num_lt PosInf _ = False"
| "num_lt NegInf NegInf = False"
| "num_lt NegInf _ = True"

text \<open>\<open>a === b\<close> on two numbers: \<open>NaN\<close> differs from itself.\<close>

fun num_eq :: "jsnum \<Rightarrow> jsnum \<Rightarrow> bool" where
  "num_eq NaN _ = False"
| "num_eq _ NaN = False"
| "num_eq a b = (a = b)"

definition num_le :: "jsnum \<Rightarrow> jsnum \<Rightarrow> bool" where
  "num_le a b = (num_lt a b \<or> num_eq a b)"

text \<open>Strict equality \<open>===\<close>: by value on primitives, by identity on arrays and objects.\<close>

fun strict_eq :: "jsval \<Rightarrow> jsval \<Rightarrow> bool" where
  "strict_eq JUndefined JUndefined = True"
| "strict_eq JNull JNull = True"
| "strict_eq (JBool a) (JBool b) = (a = b)"
| "strict_eq (JNum a) (JNum b) = num_eq a b"
| "strict_eq (JStr a) (JStr b) = (a = b)"
| "strict_eq (JArr a _) (JArr b _) = (a = b)"
| "strict_eq (JObj a _) (JObj b _) = (a = b)"
| "strict_eq (JFun f) (JFun g) = (f = g)"
| "strict_eq JObjectPrototype JObjectPrototype = True"
| "strict_eq JArrayPrototype JArrayPrototype = True"
| "strict_eq _ _ = False"

text \<open>SameValueZero, the comparison of \<open>Array.prototype.includes\<close> and of \<open>Set\<close>:
  strict equality, except that \<open>NaN\<close> equals itself.\<close>

fun same_value_zero :: "jsval \<Rightarrow> jsval \<Rightarrow> bool" where
  "same_value_zero (JNum NaN) (JNum NaN) = True"
| "same_value_zero a b = strict_eq a b"

definition array_includes :: "jsval list \<Rightarrow> jsval \<Rightarrow> bool" where
  "array_includes xs v = list_ex (\<lambda>x. same_value_zero x v) xs"

text \<open>\<open>s.includes(t)\<close> on strings: \<open>t\<close> is the substring of \<open>s\<close> at some position.\<close>

definition string_includes :: "string \<Rightarrow> string \<Rightarrow> bool" where
  "string_includes s t =
     list_ex (\<lambda>i. take (length t) (drop i s) = t) [0..<Suc (length s)]"

datatype jstype = TUndefined | TObject | TBoolean | TNumber | TString | TFunction

fun typeof :: "jsval \<Rightarrow> jstype" where
  "typeof JUndefined = TUndefined"
| "typeof JNull = TObject"
| "typeof (JBool _) = TBoolean"
| "typeof (JNum _) = TNumber"
| "typeof (JStr _) = TString"
| "typeof (JArr _ _) = TObject"
| "typeof (JObj _ _) = TObject"
| "typeof (JFun _) = TFunction"
| "typeof JObjectPrototype = TObject"
| "typeof JArrayPrototype = TObject"

text \<open>The elements of an array.  \<open>Array.prototype\<close> is itself an array, of length 0.\<close>

fun array_elements :: "jsval \<Rightarrow> jsval list option" where
  "array_elements (JArr _ xs) = Some xs"
| "array_elements JArrayPrototype = Some []"
| "array_elements _ = None"

definition isArray :: "jsval \<Rightarrow> bool" where
  "isArray v = (array_elements v \<noteq> None)"

text \<open>Truthiness, as tested by \<open>if\<close>, \<open>&&\<close>, \<open>||\<close> and \<open>!\<close>.\<close>

fun truthy :: "jsval \<Rightarrow> bool" where
  "truthy JUndefined = False"
| "truthy JNull = False"
| "truthy (JBool b) = b"
| "truthy (JNum n) = (n \<noteq> NaN \<and> n \<noteq> Fin 0)"
| "truthy (JStr s) = (s \<noteq> [])"
| "truthy (JArr _ _) = True"
| "truthy (JObj _ _) = True"
| "truthy (JFun _) = True"
| "truthy JObjectPrototype = True"
| "truthy JArrayPrototype = True"

subsection \<open>Decimal numerals and property keys\<close>

text \<open>The decimal digit of a number below ten.\<close>

definition digit_char :: "nat \<Rightarrow> char" where
  "digit_char n = ''0123456789'' ! n"

fun nat_to_string :: "nat \<Rightarrow> string" where
  "nat_to_string n = (if n < 10 then [digit_char n]
                      else nat_to_string (n div 10) @ [digit_char (n mod 10)])"

declare nat_to_string.simps [simp del]

definition int_to_string :: "int \<Rightarrow> string" where
  "int_to_string i = (if i < 0 then CHR ''-'' # nat_to_string (nat (- i))
                      else nat_to_string (nat i))"

text \<open>The element of an array that a property key names: the key is the canonical
  decimal numeral of an index below the length.\<close>

definition array_index :: "jsval list \<Rightarrow> string \<Rightarrow> nat option" where
  "array_index xs k = List.find (\<lambda>i. nat_to_string i = k) [0..<length xs]"

subsection \<open>Members, own and inherited\<close>

text \<open>
  The string-keyed members of the two prototypes, as the standard library defines them
  (ECMAScript 2023 with its Annex B).  All are functions, but \<open>__proto__\<close>, an accessor
  that returns the prototype of the object it is read from, and the \<open>length\<close> of
  \<open>Array.prototype\<close>, which is 0.
\<close>

definition object_prototype_keys :: "string list" where
  "object_prototype_keys =
     [''constructor'', ''__defineGetter__'', ''__defineSetter__'', ''hasOwnProperty'',
      ''__lookupGetter__'', ''__lookupSetter__'', ''isPrototypeOf'', ''propertyIsEnumerable'',
      ''toString'', ''valueOf'', ''__proto__'', ''toLocaleString'']"

definition array_prototype_keys :: "string list" where
  "array_prototype_keys =
     [''length'', ''constructor'', ''at'', ''concat'', ''copyWithin'', ''fill'', ''find'',
      ''findIndex'', ''findLast'', ''findLastIndex'', ''lastIndexOf'', ''pop'', ''push'',
      ''reverse'', ''shift'', ''unshift'', ''slice'', ''sort'', ''splice'', ''includes'',
      ''indexOf'', ''join'', ''keys'', ''entries'', ''values'', ''forEach'', ''filter'',
      ''flat'', ''flatMap'', ''map'', ''every'', ''some'', ''reduce'', ''reduceRight'',
      ''toLocaleString'', ''toString'', ''toReversed'', ''toSorted'', ''toSpliced'',
      ''with'']"

text \<open>The member \<open>k\<close> as \<open>Object.prototype\<close> provides it to an object whose prototype
  is \<open>proto\<close>, and as \<open>Array.prototype\<close> provides it.\<close>

definition object_prototype_member :: "jsval \<Rightarrow> string \<Rightarrow> jsval option" where
  "object_prototype_member proto k =
     (if k = ''__proto__'' then Some proto
      else if k = ''constructor'' then Some (JFun ''Object'')
      else if k \<in> set object_prototype_keys then Some (JFun (''Object.prototype.'' @ k))
      else None)"

definition array_prototype_member :: "string \<Rightarrow> jsval option" where
  "array_prototype_member k =
     (if k = ''length'' then Some (JNum (Fin 0))
      else if k = ''constructor'' then Some (JFun ''Array'')
      else if k \<in> set array_prototype_keys then Some (JFun (''Array.prototype.'' @ k))
      else None)"

text \<open>
  The lookup of the member \<open>k\<close> of a value: its own property of that name, or else the
  first one along its prototype chain; \<open>None\<close> when there is none.  The chain of an
  object is \<open>Object.prototype\<close>, that of an array is \<open>Array.prototype\<close> and then
  \<open>Object.prototype\<close>.  Of a string the lookup knows the own members, the length and
  the characters; the members of functions and those that primitives inherit are not
  modelled: the evaluator walks only into values whose \<open>typeof\<close> is \<open>object\<close>, and the
  executor reads only the members that the interfaces declare, none of which is a
  member of a built-in.
\<close>

fun find_member :: "jsval \<Rightarrow> string \<Rightarrow> jsval option" where
  "find_member (JObj _ kvs) k =
     (case map_of kvs k of
        Some v \<Rightarrow> Some v
      | None \<Rightarrow> object_prototype_member JObjectPrototype k)"
| "find_member (JArr _ xs) k =
     (if k = ''length'' then Some (JNum (Fin (of_nat (length xs))))
      else case array_index xs k of
             Some i \<Rightarrow> Some (xs ! i)
           | None \<Rightarrow>
               (case array_prototype_member k of
                  Some f \<Rightarrow> Some f
                | None \<Rightarrow> object_prototype_member JArrayPrototype k))"
| "find_member JArrayPrototype k =
     (case array_prototype_member k of
        Some f \<Rightarrow> Some f
      | None \<Rightarrow> object_prototype_member JObjectPrototype k)"
| "find_member JObjectPrototype k = object_prototype_member JNull k"
| "find_member (JStr s) k =
     (if k = ''length'' then Some (JNum (Fin (of_nat (length s))))
      else case List.find (\<lambda>i. nat_to_string i = k) [0..<length s] of
             None \<Rightarrow> None | Some i \<Rightarrow> Some (JStr [s ! i]))"
| "find_member _ k = None"

text \<open>\<open>k in v\<close>: true for an own and for an inherited member; a \<open>TypeError\<close> when \<open>v\<close>
  is a primitive.\<close>

fun js_in :: "string \<Rightarrow> jsval \<Rightarrow> error + bool" where
  "js_in k JUndefined = Inl (TypeError ''right-hand side of in is not an object'')"
| "js_in k JNull = Inl (TypeError ''right-hand side of in is not an object'')"
| "js_in k (JBool _) = Inl (TypeError ''right-hand side of in is not an object'')"
| "js_in k (JNum _) = Inl (TypeError ''right-hand side of in is not an object'')"
| "js_in k (JStr _) = Inl (TypeError ''right-hand side of in is not an object'')"
| "js_in k v = Inr (find_member v k \<noteq> None)"

text \<open>The value of the member \<open>k\<close> of a value that is neither \<open>undefined\<close> nor
  \<open>null\<close>: \<open>undefined\<close> when the lookup finds no member.\<close>

definition js_member :: "jsval \<Rightarrow> string \<Rightarrow> jsval" where
  "js_member v k = (case find_member v k of None \<Rightarrow> JUndefined | Some x \<Rightarrow> x)"

definition is_nullish :: "jsval \<Rightarrow> bool" where
  "is_nullish v = (v = JUndefined \<or> v = JNull)"

text \<open>\<open>v[k]\<close> and \<open>v.k\<close>: a \<open>TypeError\<close> on \<open>undefined\<close> and \<open>null\<close>.\<close>

definition js_get :: "jsval \<Rightarrow> string \<Rightarrow> error + jsval" where
  "js_get v k =
     (if is_nullish v then Inl (TypeError ''cannot read properties of undefined or null'')
      else Inr (js_member v k))"

text \<open>\<open>v?.k\<close>: \<open>undefined\<close> on \<open>undefined\<close> and \<open>null\<close>.\<close>

definition js_get_optional :: "jsval \<Rightarrow> string \<Rightarrow> jsval" where
  "js_get_optional v k = (if is_nullish v then JUndefined else js_member v k)"

text \<open>\<open>s.split('.')\<close>: the pieces between the separators; the empty string gives one
  empty piece.\<close>

fun split :: "char \<Rightarrow> string \<Rightarrow> string list" where
  "split sep [] = [[]]"
| "split sep (c # cs) =
     (if c = sep then [] # split sep cs
      else case split sep cs of p # ps \<Rightarrow> (c # p) # ps | [] \<Rightarrow> [[c]])"

section \<open>Rules and conditions (engine/types.ts)\<close>

datatype ConditionOperator =
    Equals | NotEquals | GreaterThan | LessThan | GreaterThanOrEqual | LessThanOrEqual
  | Contains | NotContains | In | NotIn | Exists | NotExists
  | UnknownOperator string

datatype LogicalOperator = All | Any | None' | UnknownLogical string

text \<open>An absent \<open>value\<close> member reads as \<open>undefined\<close>.  The two operator types have
  one more constructor for a string outside the declared union, which the \<open>default\<close>
  branches of the evaluator handle.\<close>

record RightRuleConditionRule =
  field :: string
  operator :: ConditionOperator
  "value" :: jsval

datatype RightRuleConditions =
  RightRuleConditions LogicalOperator "RightRuleConditionRule list option"
    "RightRuleConditions list option"

text \<open>The members of \<open>RightRule\<close> are prefixed with \<open>rule_\<close>, since several interfaces
  share the member names \<open>id\<close> and \<open>name\<close>.  A priority is an integer.\<close>

record RightRule =
  rule_id :: string
  rule_name :: string
  rule_description :: "string option"
  rule_jurisdiction :: string
  rule_legalBasis :: "string option"
  rule_priority :: "int option"
  rule_conditions :: RightRuleConditions
  rule_actions :: "string list"

text \<open>
  The interfaces of actions, services, questions and content packs.  The members are
  prefixed with the name of the interface.  Of \<open>Service\<close> and \<open>Question\<close> the record
  keeps the members that the loader reads (\<open>service_acceptsPets\<close> is
  \<open>eligibility?.acceptsPets\<close>, \<open>service_isAvailable24_7\<close> is
  \<open>availability?.isAvailable24_7\<close>); of \<open>ActionTemplate\<close> all but \<open>documentation\<close> and
  \<open>metadata\<close>, which no function reads (as the \<open>metadata\<close> of \<open>RightRule\<close>).  An
  \<open>order\<close> is an integer, below the size at which a template literal prints a number
  with an exponent.

  A content pack is parsed JSON that the loader validates, so the four members that the
  interface declares as required strings may be absent: they are options here.
\<close>

datatype ActionType = Immediate | Referral | Application | Assessment | Notification | Documentation
datatype ActionCategory = Emergency | Housing | Financial | Support | Legal | Medical | Other
datatype ActionUrgency = Critical | High | Medium | Low
datatype InputFieldType = Text | Number | Date | Boolean | Select | Multiselect | Textarea

record ActionInputField =
  input_name :: string
  input_label :: "string option"
  input_type :: InputFieldType
  input_required :: "bool option"
  input_options :: "string list option"

record ActionStep =
  step_order :: int
  step_instruction :: string
  step_requiresInput :: "bool option"
  step_inputFields :: "ActionInputField list option"

record ActionContactInfo =
  contact_phone :: "string option"
  contact_email :: "string option"
  contact_website :: "string option"
  contact_address :: "string option"
  contact_hoursOfOperation :: "string option"

record ActionOutcome =
  outcome_id :: string
  outcome_description :: string
  outcome_nextActions :: "string list option"

record ActionTemplate =
  action_id :: string
  action_name :: string
  action_description :: "string option"
  action_type :: ActionType
  action_category :: ActionCategory
  action_urgency :: "ActionUrgency option"
  action_steps :: "ActionStep list option"
  action_requiredInformation :: "string list option"
  action_estimatedDuration :: "string option"
  action_contactInfo :: "ActionContactInfo option"
  action_prerequisites :: "string list option"
  action_relatedServices :: "string list option"
  action_outcomes :: "ActionOutcome list option"

record Service =
  service_id :: string
  service_name :: string
  service_type :: string
  service_acceptsPets :: "bool option"
  service_isAvailable24_7 :: "bool option"

record Question =
  question_id :: string
  question_text :: string

record ContentPack =
  pack_id :: "string option"
  pack_name :: "string option"
  pack_version :: "string option"
  pack_jurisdiction :: "string option"
  pack_entryPoint :: "string option"
  pack_questions :: "Question list option"
  pack_rules :: "RightRule list option"
  pack_actions :: "ActionTemplate list option"
  pack_services :: "Service list option"

section \<open>RuleEvaluator (engine/RuleEvaluator.ts)\<close>

text \<open>The loop of \<open>getFieldValue\<close> over the parts of the path.\<close>

fun walk :: "string list \<Rightarrow> jsval \<Rightarrow> error + jsval" where
  "walk [] v = Inr v"
| "walk (part # parts) v =
     (if truthy v \<and> typeof v = TObject then
        (case js_in part v of
           Inl e \<Rightarrow> Inl e
         | Inr b \<Rightarrow>
             if b then (case js_get v part of Inl e \<Rightarrow> Inl e | Inr v' \<Rightarrow> walk parts v')
             else Inr JUndefined)
      else Inr JUndefined)"

definition getFieldValue :: "string \<Rightarrow> jsval \<Rightarrow> error + jsval" where
  "getFieldValue path sessionState = walk (split CHR ''.'' path) sessionState"

text \<open>\<open>x ?? d\<close>, and the default of a destructured member.\<close>

definition nullish :: "'a option \<Rightarrow> 'a \<Rightarrow> 'a" where
  "nullish x d = (case x of None \<Rightarrow> d | Some v \<Rightarrow> v)"

text \<open>\<open>xs.map(f)\<close> where \<open>f\<close> may throw: the first exception ends the map.\<close>

fun sequence :: "(error + 'a) list \<Rightarrow> error + 'a list" where
  "sequence [] = Inr []"
| "sequence (x # xs) =
     (case x of
        Inl e \<Rightarrow> Inl e
      | Inr a \<Rightarrow> (case sequence xs of Inl e \<Rightarrow> Inl e | Inr as \<Rightarrow> Inr (a # as)))"

text \<open>The \<open>switch\<close> on the operator in \<open>evaluateConditionRule\<close>.\<close>

fun apply_operator :: "ConditionOperator \<Rightarrow> jsval \<Rightarrow> jsval \<Rightarrow> bool" where
  "apply_operator Equals fieldValue v = strict_eq fieldValue v"
| "apply_operator NotEquals fieldValue v = (\<not> strict_eq fieldValue v)"
| "apply_operator GreaterThan fieldValue v =
     (case (fieldValue, v) of (JNum a, JNum b) \<Rightarrow> num_lt b a | _ \<Rightarrow> False)"
| "apply_operator LessThan fieldValue v =
     (case (fieldValue, v) of (JNum a, JNum b) \<Rightarrow> num_lt a b | _ \<Rightarrow> False)"
| "apply_operator GreaterThanOrEqual fieldValue v =
     (case (fieldValue, v) of (JNum a, JNum b) \<Rightarrow> num_le b a | _ \<Rightarrow> False)"
| "apply_operator LessThanOrEqual fieldValue v =
     (case (fieldValue, v) of (JNum a, JNum b) \<Rightarrow> num_le a b | _ \<Rightarrow> False)"
| "apply_operator Contains fieldValue v =
     (case (fieldValue, v) of
        (JStr s, JStr t) \<Rightarrow> string_includes s t
      | _ \<Rightarrow> (case array_elements fieldValue of
                Some xs \<Rightarrow> array_includes xs v
              | None \<Rightarrow> False))"
| "apply_operator NotContains fieldValue v =
     (case (fieldValue, v) of
        (JStr s, JStr t) \<Rightarrow> \<not> string_includes s t
      | _ \<Rightarrow> (case array_elements fieldValue of
                Some xs \<Rightarrow> \<not> array_includes xs v
              | None \<Rightarrow> True))"
| "apply_operator In fieldValue v =
     (case array_elements v of Some xs \<Rightarrow> array_includes xs fieldValue | None \<Rightarrow> False)"
| "apply_operator NotIn fieldValue v =
     (case array_elements v of Some xs \<Rightarrow> \<not> array_includes xs fieldValue | None \<Rightarrow> False)"
| "apply_operator Exists fieldValue v = (fieldValue \<noteq> JUndefined \<and> fieldValue \<noteq> JNull)"
| "apply_operator NotExists fieldValue v = (fieldValue = JUndefined \<or> fieldValue = JNull)"
| "apply_operator (UnknownOperator _) fieldValue v = False"

definition evaluateConditionRule :: "RightRuleConditionRule \<Rightarrow> jsval \<Rightarrow> error + bool" where
  "evaluateConditionRule rule sessionState =
     (case getFieldValue (field rule) sessionState of
        Inl e \<Rightarrow> Inl e
      | Inr fieldValue \<Rightarrow> Inr (apply_operator (operator rule) fieldValue (value rule)))"

text \<open>The \<open>switch\<close> on the type in \<open>evaluateConditions\<close>.\<close>

fun combine :: "LogicalOperator \<Rightarrow> bool list \<Rightarrow> bool" where
  "combine All allResults = (length allResults > 0 \<and> list_all (\<lambda>result. result) allResults)"
| "combine Any allResults = (length allResults > 0 \<and> list_ex (\<lambda>result. result) allResults)"
| "combine None' allResults = (length allResults > 0 \<and> list_all (\<lambda>result. \<not> result) allResults)"
| "combine (UnknownLogical _) allResults = False"

function evaluateConditions :: "RightRuleConditions \<Rightarrow> jsval \<Rightarrow> error + bool" where
  "evaluateConditions (RightRuleConditions t rs ns) sessionState =
     (case sequence (map (\<lambda>rule. evaluateConditionRule rule sessionState) (nullish rs [])) of
        Inl e \<Rightarrow> Inl e
      | Inr ruleResults \<Rightarrow>
          (case sequence (map (\<lambda>nestedCondition. evaluateConditions nestedCondition sessionState)
                           (nullish ns [])) of
             Inl e \<Rightarrow> Inl e
           | Inr nestedResults \<Rightarrow> Inr (combine t (ruleResults @ nestedResults))))"
  by pat_completeness auto

termination
proof (relation "measure (\<lambda>(c, s). size c)", goal_cases)
  case 1
  show ?case by simp
next
  case (2 t rs ns sessionState ruleResults x)
  then have mem: "x \<in> set (nullish ns [])" by simp
  have "size x < Suc (size_option (size_list size) ns)"
  proof (cases ns)
    case None
    with mem show ?thesis by (simp add: nullish_def)
  next
    case (Some xs)
    with mem have "x \<in> set xs" by (simp add: nullish_def)
    then have "size x \<le> size_list size xs" by (rule size_list_estimation') simp
    with Some show ?thesis by simp
  qed
  then show ?case by simp
qed

text \<open>\<open>evaluateRule\<close> catches whatever the evaluation throws and returns false.\<close>

definition evaluateRule :: "RightRule \<Rightarrow> jsval \<Rightarrow> bool" where
  "evaluateRule rule sessionState =
     (case evaluateConditions (rule_conditions rule) sessionState of
        Inl e \<Rightarrow> False
      | Inr b \<Rightarrow> b)"

text \<open>
  \<open>Array.prototype.sort\<close> with a comparator.  The language requires the sort to be
  stable, and with a consistent comparator (as the differences of keys used here are)
  its result is determined: the elements in ascending order of the comparator, those
  that compare equal in their original order.  Insertion from the right, placing an
  element before the first one that it does not follow, computes that list.
\<close>

fun insert_sorted :: "('a \<Rightarrow> 'a \<Rightarrow> int) \<Rightarrow> 'a \<Rightarrow> 'a list \<Rightarrow> 'a list" where
  "insert_sorted cmp x [] = [x]"
| "insert_sorted cmp x (y # ys) =
     (if cmp x y \<le> 0 then x # y # ys else y # insert_sorted cmp x ys)"

definition js_sort :: "('a \<Rightarrow> 'a \<Rightarrow> int) \<Rightarrow> 'a list \<Rightarrow> 'a list" where
  "js_sort cmp xs = foldr (insert_sorted cmp) xs []"

definition evaluateRules :: "RightRule list \<Rightarrow> jsval \<Rightarrow> RightRule list" where
  "evaluateRules rules sessionState =
     (let sortedRules = js_sort (\<lambda>a b. nullish (rule_priority b) 0 - nullish (rule_priority a) 0) rules
      in filter (\<lambda>rule. evaluateRule rule sessionState) sortedRules)"

text \<open>
  The members of a value in the terms of the data: \<open>has_own_member\<close> are the own
  properties of an object and the indices and the length of an array; \<open>has_member\<close>
  adds the names that the value inherits from its prototypes.  A primitive has no
  member to walk into.
\<close>

fun has_own_member :: "jsval \<Rightarrow> string \<Rightarrow> bool" where
  "has_own_member (JObj _ kvs) k = (k \<in> set (map fst kvs))"
| "has_own_member (JArr _ xs) k =
     (k = ''length'' \<or> k \<in> set (map nat_to_string [0..<length xs]))"
| "has_own_member JArrayPrototype k = (k \<in> set array_prototype_keys)"
| "has_own_member JObjectPrototype k = (k \<in> set object_prototype_keys)"
| "has_own_member _ k = False"

fun has_member :: "jsval \<Rightarrow> string \<Rightarrow> bool" where
  "has_member (JObj a kvs) k =
     (has_own_member (JObj a kvs) k \<or> k \<in> set object_prototype_keys)"
| "has_member (JArr a xs) k =
     (has_own_member (JArr a xs) k \<or> k \<in> set array_prototype_keys
      \<or> k \<in> set object_prototype_keys)"
| "has_member JArrayPrototype k =
     (k \<in> set array_prototype_keys \<or> k \<in> set object_prototype_keys)"
| "has_member JObjectPrototype k = (k \<in> set object_prototype_keys)"
| "has_member _ k = False"

section \<open>ContentPackLoader (engine/ContentPackLoader.ts)\<close>

text \<open>
  The loader owns one \<open>Map\<close> from pack ids to packs.  A \<open>Map\<close> keeps its keys in
  insertion order, \<open>set\<close> replaces the value of a key that is present and appends a new
  key, which is \<open>AList.update\<close> on an association list.  The key of an entry is the
  \<open>id\<close> member of the pack as it is.  Every method takes the loader and those that
  assign to its map return the loader they leave; a method that throws leaves the
  loader as it was when the exception left it.
\<close>

record ContentPackLoader =
  loadedPacks :: "(string option \<times> ContentPack) list"

definition new_ContentPackLoader :: ContentPackLoader where
  "new_ContentPackLoader = \<lparr>loadedPacks = []\<rparr>"

text \<open>\<open>!s\<close> on a member that is a string when present: it is absent or empty.\<close>

definition not_string :: "string option \<Rightarrow> bool" where
  "not_string s = (s = None \<or> s = Some [])"

text \<open>
  \<open>/^\d+\.\d+\.\d+$/.test(s)\<close>.  Without flags \<open>\d\<close> is an ASCII digit and \<open>$\<close> is
  the end of the input.  A run of digits is always followed by a literal dot or by the
  end, so matching the longest run never has to be undone: the matcher consumes digits,
  a dot, digits, a dot, digits, and then the input must be used up.
\<close>

definition is_digit :: "char \<Rightarrow> bool" where
  "is_digit c = (c \<in> set ''0123456789'')"

definition digits1 :: "string \<Rightarrow> string option" where
  "digits1 s = (case s of [] \<Rightarrow> None
                | c # cs \<Rightarrow> if is_digit c then Some (dropWhile is_digit cs) else None)"

definition dot :: "string \<Rightarrow> string option" where
  "dot s = (case s of [] \<Rightarrow> None | c # cs \<Rightarrow> if c = CHR ''.'' then Some cs else None)"

definition versionRegex_test :: "string \<Rightarrow> bool" where
  "versionRegex_test s =
     (case Option.bind (Option.bind (Option.bind (Option.bind (digits1 s) dot) digits1) dot) digits1 of
        None \<Rightarrow> False
      | Some rest \<Rightarrow> rest = [])"

text \<open>\<open>xs.join(sep)\<close>\<close>

fun join :: "string \<Rightarrow> string list \<Rightarrow> string" where
  "join sep [] = []"
| "join sep [x] = x"
| "join sep (x # y # ys) = x @ sep @ join sep (y # ys)"

text \<open>\<open>checkDuplicateIds\<close> reads only the \<open>id\<close> of each item, so it takes the list of
  ids; the two local variables of the loop are the state of the fold.\<close>

definition checkDuplicateIds :: "string list \<Rightarrow> string \<Rightarrow> error + unit" where
  "checkDuplicateIds items type =
     (let (ids, duplicates) =
            fold (\<lambda>item (ids, duplicates).
                    (insert item ids, if item \<in> ids then duplicates @ [item] else duplicates))
                 items ({}, [])
      in if length duplicates > 0
         then Inl (Error (''Duplicate '' @ type @ '' IDs found in content pack: ''
                          @ join '', '' duplicates))
         else Inr ())"

text \<open>Sequencing of two computations that may throw.\<close>

definition bindE :: "error + 'a \<Rightarrow> ('a \<Rightarrow> error + 'b) \<Rightarrow> error + 'b" where
  "bindE x f = (case x of Inl e \<Rightarrow> Inl e | Inr a \<Rightarrow> f a)"

definition validateContentPack :: "ContentPack \<Rightarrow> error + unit" where
  "validateContentPack pack =
     (if not_string (pack_id pack) then Inl (Error ''Content pack must have an id'')
      else if not_string (pack_name pack) then Inl (Error ''Content pack must have a name'')
      else if not_string (pack_version pack) then Inl (Error ''Content pack must have a version'')
      else if not_string (pack_jurisdiction pack)
        then Inl (Error ''Content pack must have a jurisdiction'')
      else if \<not> versionRegex_test (nullish (pack_version pack) [])
        then Inl (Error ''Content pack version must follow semantic versioning (e.g., 1.0.0)'')
      else
        bindE (checkDuplicateIds (map question_id (nullish (pack_questions pack) [])) ''questions'')
          (\<lambda>_. bindE (checkDuplicateIds (map rule_id (nullish (pack_rules pack) [])) ''rules'')
          (\<lambda>_. bindE (checkDuplicateIds (map action_id (nullish (pack_actions pack) [])) ''actions'')
          (\<lambda>_. checkDuplicateIds (map service_id (nullish (pack_services pack) [])) ''services''))))"

definition loadContentPack ::
  "ContentPackLoader \<Rightarrow> ContentPack \<Rightarrow> (error + unit) \<times> ContentPackLoader" where
  "loadContentPack this packData =
     (case validateContentPack packData of
        Inl e \<Rightarrow> (Inl e, this)
      | Inr _ \<Rightarrow>
          (Inr (), this\<lparr>loadedPacks := AList.update (pack_id packData) packData (loadedPacks this)\<rparr>))"


text \<open>
  \<open>loadContentPackFromUrl\<close> awaits \<open>fetch\<close> and \<open>response.json()\<close> and passes the
  parsed pack to \<open>loadContentPack\<close>; every exception is logged and thrown again.  What
  the network delivers is the parameter \<open>response\<close>: the exception of a failed fetch
  or parse, or the parsed pack.
\<close>

definition loadContentPackFromUrl ::
  "ContentPackLoader \<Rightarrow> error + ContentPack \<Rightarrow> (error + ContentPack) \<times> ContentPackLoader"
  where
  "loadContentPackFromUrl this response =
     (case response of
        Inl e \<Rightarrow> (Inl e, this)
      | Inr packData \<Rightarrow>
          (case loadContentPack this packData of
             (Inl e, this') \<Rightarrow> (Inl e, this')
           | (Inr _, this') \<Rightarrow> (Inr packData, this')))"

definition getContentPack :: "ContentPackLoader \<Rightarrow> string \<Rightarrow> ContentPack option" where
  "getContentPack this packId = map_of (loadedPacks this) (Some packId)"

definition getAllContentPacks :: "ContentPackLoader \<Rightarrow> ContentPack list" where
  "getAllContentPacks this = map snd (loadedPacks this)"

definition findByJurisdiction :: "ContentPackLoader \<Rightarrow> string \<Rightarrow> ContentPack list" where
  "findByJurisdiction this j =
     filter (\<lambda>pack. pack_jurisdiction pack = Some j) (getAllContentPacks this)"

definition getRules :: "ContentPackLoader \<Rightarrow> string \<Rightarrow> RightRule list" where
  "getRules this packId =
     (case getContentPack this packId of None \<Rightarrow> [] | Some pack \<Rightarrow> nullish (pack_rules pack) [])"

definition getActions :: "ContentPackLoader \<Rightarrow> string \<Rightarrow> ActionTemplate list" where
  "getActions this packId =
     (case getContentPack this packId of None \<Rightarrow> [] | Some pack \<Rightarrow> nullish (pack_actions pack) [])"

definition getAction :: "ContentPackLoader \<Rightarrow> string \<Rightarrow> string \<Rightarrow> ActionTemplate option" where
  "getAction this packId actionId =
     List.find (\<lambda>action. action_id action = actionId) (getActions this packId)"

definition getServices :: "ContentPackLoader \<Rightarrow> string \<Rightarrow> Service list" where
  "getServices this packId =
     (case getContentPack this packId of None \<Rightarrow> [] | Some pack \<Rightarrow> nullish (pack_services pack) [])"

definition getService :: "ContentPackLoader \<Rightarrow> string \<Rightarrow> string \<Rightarrow> Service option" where
  "getService this packId serviceId =
     List.find (\<lambda>service. service_id service = serviceId) (getServices this packId)"

definition getQuestions :: "ContentPackLoader \<Rightarrow> string \<Rightarrow> Question list" where
  "getQuestions this packId =
     (case getContentPack this packId of None \<Rightarrow> [] | Some pack \<Rightarrow> nullish (pack_questions pack) [])"

definition getQuestion :: "ContentPackLoader \<Rightarrow> string \<Rightarrow> string \<Rightarrow> Question option" where
  "getQuestion this packId questionId =
     List.find (\<lambda>question. question_id question = questionId) (getQuestions this packId)"

definition getEntryPoint :: "ContentPackLoader \<Rightarrow> string \<Rightarrow> Question option" where
  "getEntryPoint this packId =
     (case getContentPack this packId of
        None \<Rightarrow> None
      | Some pack \<Rightarrow>
          (case pack_entryPoint pack of
             None \<Rightarrow> None
           | Some entryPoint \<Rightarrow>
               if entryPoint = [] then None else getQuestion this packId entryPoint))"

definition findServicesByType :: "ContentPackLoader \<Rightarrow> string \<Rightarrow> string \<Rightarrow> Service list" where
  "findServicesByType this packId type =
     filter (\<lambda>service. service_type service = type) (getServices this packId)"

definition findPetFriendlyServices :: "ContentPackLoader \<Rightarrow> string \<Rightarrow> Service list" where
  "findPetFriendlyServices this packId =
     filter (\<lambda>service. service_acceptsPets service = Some True) (getServices this packId)"

definition find24_7Services :: "ContentPackLoader \<Rightarrow> string \<Rightarrow> Service list" where
  "find24_7Services this packId =
     filter (\<lambda>service. service_isAvailable24_7 service = Some True) (getServices this packId)"

definition clearAll :: "ContentPackLoader \<Rightarrow> ContentPackLoader" where
  "clearAll this = this\<lparr>loadedPacks := []\<rparr>"

definition removeContentPack :: "ContentPackLoader \<Rightarrow> string \<Rightarrow> bool \<times> ContentPackLoader" where
  "removeContentPack this packId =
     (map_of (loadedPacks this) (Some packId) \<noteq> None,
      this\<lparr>loadedPacks := AList.delete (Some packId) (loadedPacks this)\<rparr>)"

text \<open>The public methods as operations on the loader, for reasoning about sequences of
  calls.\<close>

datatype loader_op =
    LoadContentPack ContentPack
  | LoadContentPackFromUrl "error + ContentPack"
  | GetContentPack string
  | GetAllContentPacks
  | FindByJurisdiction string
  | GetRules string
  | GetActions string
  | GetAction string string
  | GetServices string
  | GetService string string
  | GetQuestions string
  | GetQuestion string string
  | GetEntryPoint string
  | FindServicesByType string string
  | FindPetFriendlyServices string
  | Find24_7Services string
  | ClearAll
  | RemoveContentPack string

datatype loader_result =
    Returned
  | Raised error
  | ReturnedBool bool
  | ReturnedPack "ContentPack option"
  | ReturnedPacks "ContentPack list"
  | ReturnedRules "RightRule list"
  | ReturnedActions "ActionTemplate list"
  | ReturnedAction "ActionTemplate option"
  | ReturnedServices "Service list"
  | ReturnedService "Service option"
  | ReturnedQuestions "Question list"
  | ReturnedQuestion "Question option"

fun exec :: "ContentPackLoader \<Rightarrow> loader_op \<Rightarrow> loader_result \<times> ContentPackLoader" where
  "exec this (LoadContentPack packData) =
     (case loadContentPack this packData of
        (Inl e, this') \<Rightarrow> (Raised e, this')
      | (Inr _, this') \<Rightarrow> (Returned, this'))"
| "exec this (LoadContentPackFromUrl response) =
     (case loadContentPackFromUrl this response of
        (Inl e, this') \<Rightarrow> (Raised e, this')
      | (Inr packData, this') \<Rightarrow> (ReturnedPack (Some packData), this'))"
| "exec this (GetContentPack packId) = (ReturnedPack (getContentPack this packId), this)"
| "exec this GetAllContentPacks = (ReturnedPacks (getAllContentPacks this), this)"
| "exec this (FindByJurisdiction j) = (ReturnedPacks (findByJurisdiction this j), this)"
| "exec this (GetRules packId) = (ReturnedRules (getRules this packId), this)"
| "exec this (GetActions packId) = (ReturnedActions (getActions this packId), this)"
| "exec this (GetAction packId actionId) = (ReturnedAction (getAction this packId actionId), this)"
| "exec this (GetServices packId) = (ReturnedServices (getServices this packId), this)"
| "exec this (GetService packId serviceId) =
     (ReturnedService (getService this packId serviceId), this)"
| "exec this (GetQuestions packId) = (ReturnedQuestions (getQuestions this packId), this)"
| "exec this (GetQuestion packId questionId) =
     (ReturnedQuestion (getQuestion this packId questionId), this)"
| "exec this (GetEntryPoint packId) = (ReturnedQuestion (getEntryPoint this packId), this)"
| "exec this (FindServicesByType packId type) =
     (ReturnedServices (findServicesByType this packId type), this)"
| "exec this (FindPetFriendlyServices packId) =
     (ReturnedServices (findPetFriendlyServices this packId), this)"
| "exec this (Find24_7Services packId) = (ReturnedServices (find24_7Services this packId), this)"
| "exec this ClearAll = (Returned, clearAll this)"
| "exec this (RemoveContentPack packId) =
     (case removeContentPack this packId of (b, this') \<Rightarrow> (ReturnedBool b, this'))"

definition run :: "ContentPackLoader \<Rightarrow> loader_op list \<Rightarrow> ContentPackLoader" where
  "run this ops = fold (\<lambda>op this. snd (exec this op)) ops this"

text \<open>The validation predicate in the words of the specification: the four required
  members are present and non-empty, the version has the form of three dot-separated
  runs of digits, and no id occurs twice within a collection.\<close>

definition valid_pack :: "ContentPack \<Rightarrow> bool" where
  "valid_pack pack =
     (\<not> not_string (pack_id pack) \<and> \<not> not_string (pack_name pack)
      \<and> \<not> not_string (pack_version pack) \<and> \<not> not_string (pack_jurisdiction pack)
      \<and> (case pack_version pack of None \<Rightarrow> False | Some v \<Rightarrow> versionRegex_test v)
      \<and> distinct (map question_id (nullish (pack_questions pack) []))
      \<and> distinct (map rule_id (nullish (pack_rules pack) []))
      \<and> distinct (map action_id (nullish (pack_actions pack) []))
      \<and> distinct (map service_id (nullish (pack_services pack) [])))"

definition all_valid :: "ContentPackLoader \<Rightarrow> bool" where
  "all_valid this = list_all (\<lambda>(k, pack). k = pack_id pack \<and> valid_pack pack) (loadedPacks this)"

text \<open>A pack and an action used as concrete inputs.\<close>

definition example_pack :: ContentPack where
  "example_pack =
     \<lparr>pack_id = Some ''london'', pack_name = Some ''London rough sleeping'',
      pack_version = Some ''1.0.0'', pack_jurisdiction = Some ''england'',
      pack_entryPoint = None, pack_questions = None, pack_rules = None,
      pack_actions = None, pack_services = None\<rparr>"

definition example_action :: "string \<Rightarrow> ActionTemplate" where
  "example_action i =
     \<lparr>action_id = i, action_name = ''Call the council'', action_description = None,
      action_type = Referral, action_category = Housing, action_urgency = None,
      action_steps = None, action_requiredInformation = None,
      action_estimatedDuration = None, action_contactInfo = None,
      action_prerequisites = None, action_relatedServices = None, action_outcomes = None\<rparr>"

section \<open>ActionExecutor (config/index.ts)\<close>

text \<open>
  The executor reads the session state through the members that the \<open>SessionState\<close>
  interface declares, with the optional chaining of the source.  A read that raises a
  \<open>TypeError\<close> at run time on a value outside the interface is an \<open>Inl\<close> here.
  The time of \<open>new Date().toISOString()\<close> is a parameter.  Strings are sequences of
  8-bit characters and the two case conversions act on the ASCII letters.
\<close>

text \<open>\<open>toLowerCase\<close> and \<open>toUpperCase\<close> on the ASCII letters.\<close>

definition lower_table :: "(char \<times> char) list" where
  "lower_table = zip ''ABCDEFGHIJKLMNOPQRSTUVWXYZ'' ''abcdefghijklmnopqrstuvwxyz''"

definition toLowerCase :: "string \<Rightarrow> string" where
  "toLowerCase s = map (\<lambda>c. case map_of lower_table c of None \<Rightarrow> c | Some d \<Rightarrow> d) s"

definition toUpperCase :: "string \<Rightarrow> string" where
  "toUpperCase s =
     map (\<lambda>c. case map_of (map (\<lambda>(u, l). (l, u)) lower_table) c of None \<Rightarrow> c | Some d \<Rightarrow> d) s"

datatype ExecutionStatus = Completed | Pending | Failed | Skipped

record ActionExecutionResult =
  actionId :: string
  status :: ExecutionStatus
  message :: "string option"
  timestamp :: string
  outcome :: "string option"
  "notes" :: "string option"

record PreparedAction =
  prepared_action :: ActionTemplate
  missingInformation :: "string list"
  canExecute :: bool

definition hasRequiredInfo :: "string \<Rightarrow> jsval \<Rightarrow> error + bool" where
  "hasRequiredInfo info sessionState =
     (let infoLower = toLowerCase info in
      if string_includes infoLower ''location'' then
        bindE (js_get sessionState ''situation'')
          (\<lambda>situation. Inr (truthy (js_get_optional situation ''currentLocation'')))
      else if string_includes infoLower ''age'' then
        bindE (js_get sessionState ''user'')
          (\<lambda>user. Inr (truthy (js_get_optional user ''age'')))
      else if string_includes infoLower ''children'' \<or> string_includes infoLower ''dependents'' then
        bindE (js_get sessionState ''user'')
          (\<lambda>user. Inr (js_get_optional user ''hasChildren'' \<noteq> JUndefined))
      else if string_includes infoLower ''name'' then
        bindE (js_get sessionState ''user'')
          (\<lambda>user. Inr (truthy (js_get_optional user ''firstName'')
                        \<and> truthy (js_get_optional user ''lastName'')))
      else if string_includes infoLower ''contact'' then
        bindE (js_get sessionState ''user'')
          (\<lambda>user. let contact = js_get_optional user ''contact'' in
                   Inr (truthy (js_get_optional contact ''phone'')
                        \<or> truthy (js_get_optional contact ''email'')))
      else Inr True)"

text \<open>\<open>sessionState.completedActions?.map(a => a.actionId) ?? []\<close>\<close>

definition completedActionIds :: "jsval \<Rightarrow> error + jsval list" where
  "completedActionIds sessionState =
     bindE (js_get sessionState ''completedActions'')
       (\<lambda>completedActions.
          if is_nullish completedActions then Inr []
          else case array_elements completedActions of
                 Some xs \<Rightarrow> sequence (map (\<lambda>a. js_get a ''actionId'') xs)
               | None \<Rightarrow> Inl (TypeError ''completedActions.map is not a function''))"

text \<open>\<open>xs.forEach(f)\<close> where the callback updates local variables \<open>s\<close> and may throw.\<close>

fun forEach :: "('a \<Rightarrow> 's \<Rightarrow> error + 's) \<Rightarrow> 'a list \<Rightarrow> 's \<Rightarrow> error + 's" where
  "forEach f [] s = Inr s"
| "forEach f (x # xs) s = bindE (f x s) (forEach f xs)"

definition prepareAction :: "ActionTemplate \<Rightarrow> jsval \<Rightarrow> error + PreparedAction" where
  "prepareAction action sessionState =
     bindE (case action_requiredInformation action of
              None \<Rightarrow> Inr []
            | Some requiredInformation \<Rightarrow>
                forEach (\<lambda>info missingInformation.
                           bindE (hasRequiredInfo info sessionState)
                             (\<lambda>has. Inr (if \<not> has then missingInformation @ [info]
                                          else missingInformation)))
                        requiredInformation [])
       (\<lambda>missingInformation.
     bindE (case action_prerequisites action of
              None \<Rightarrow> Inr missingInformation
            | Some prerequisites \<Rightarrow>
                if length prerequisites > 0 then
                  bindE (completedActionIds sessionState)
                    (\<lambda>ids. forEach (\<lambda>prereqId missingInformation.
                                      Inr (if \<not> array_includes ids (JStr prereqId)
                                           then missingInformation
                                                @ [''Prerequisite action: '' @ prereqId]
                                           else missingInformation))
                                   prerequisites missingInformation)
                else Inr missingInformation)
       (\<lambda>missingInformation.
          Inr \<lparr>prepared_action = action, missingInformation = missingInformation,
               canExecute = (length missingInformation = 0)\<rparr>))"

definition executeAction :: "string \<Rightarrow> ActionTemplate \<Rightarrow> jsval \<Rightarrow> error + ActionExecutionResult" where
  "executeAction now action sessionState =
     bindE (prepareAction action sessionState)
       (\<lambda>prepared.
          if \<not> canExecute prepared then
            Inr \<lparr>actionId = action_id action, status = Pending,
                 message = Some (''Missing required information: ''
                                 @ join '', '' (missingInformation prepared)),
                 timestamp = now, outcome = None, notes = None\<rparr>
          else if action_urgency action = Some Critical \<or> action_urgency action = Some High then
            Inr \<lparr>actionId = action_id action, status = Pending,
                 message = Some ''Action prepared for execution. Follow the steps provided.'',
                 timestamp = now, outcome = None, notes = None\<rparr>
          else
            Inr \<lparr>actionId = action_id action, status = Completed,
                 message = Some ''Action executed successfully'',
                 timestamp = now, outcome = None, notes = None\<rparr>)"

text \<open>The table \<open>urgencyOrder\<close>.  \<open>executeActions\<close> takes the clock: the time read by
  the call of \<open>executeAction\<close> on the action at each position.\<close>

fun urgencyOrder :: "ActionUrgency \<Rightarrow> int" where
  "urgencyOrder Critical = 0"
| "urgencyOrder High = 1"
| "urgencyOrder Medium = 2"
| "urgencyOrder Low = 3"

definition executeActions ::
  "(nat \<Rightarrow> string) \<Rightarrow> ActionTemplate list \<Rightarrow> jsval \<Rightarrow> error + ActionExecutionResult list" where
  "executeActions clock actions sessionState =
     (let sortedActions =
            js_sort (\<lambda>a b. urgencyOrder (nullish (action_urgency a) Medium)
                           - urgencyOrder (nullish (action_urgency b) Medium)) actions
      in sequence (map (\<lambda>(i, action). executeAction (clock i) action sessionState)
                     (zip [0..<length sortedActions] sortedActions)))"


text \<open>The line feed.\<close>

definition nl :: string where
  "nl = [CHR 0x0A]"

fun urgency_string :: "ActionUrgency \<Rightarrow> string" where
  "urgency_string Critical = ''critical''"
| "urgency_string High = ''high''"
| "urgency_string Medium = ''medium''"
| "urgency_string Low = ''low''"

text \<open>The callbacks of the two \<open>map\<close> calls in \<open>formatActionSteps\<close>.\<close>

definition format_field :: "ActionInputField \<Rightarrow> string" where
  "format_field f =
     ''   - '' @ nullish (input_label f) (input_name f)
     @ (if input_required f = Some True then '' (required)'' else [])"

definition format_step :: "ActionStep \<Rightarrow> string" where
  "format_step step =
     (let stepText = int_to_string (step_order step) @ ''. '' @ step_instruction step in
      case step_inputFields step of
        None \<Rightarrow> stepText
      | Some inputFields \<Rightarrow>
          if step_requiresInput step = Some True
          then stepText @ nl @ join nl (map format_field inputFields)
          else stepText)"

definition truthy_string :: "string option \<Rightarrow> bool" where
  "truthy_string s = (\<not> not_string s)"

definition format_contact :: "ActionContactInfo \<Rightarrow> string" where
  "format_contact c =
     nl @ ''Contact Information:'' @ nl
     @ (if truthy_string (contact_phone c)
        then ''  Phone: '' @ nullish (contact_phone c) [] @ nl else [])
     @ (if truthy_string (contact_email c)
        then ''  Email: '' @ nullish (contact_email c) [] @ nl else [])
     @ (if truthy_string (contact_website c)
        then ''  Website: '' @ nullish (contact_website c) [] @ nl else [])
     @ (if truthy_string (contact_hoursOfOperation c)
        then ''  Hours: '' @ nullish (contact_hoursOfOperation c) [] @ nl else [])"

text \<open>
  \<open>formatActionSteps\<close> calls \<open>sort\<close> on \<open>action.steps\<close> itself, and \<open>sort\<close> reorders
  the array it is called on.  The function therefore returns, with the text, the action
  as the call leaves it.
\<close>

definition formatActionSteps :: "ActionTemplate \<Rightarrow> string \<times> ActionTemplate" where
  "formatActionSteps action =
     (if action_steps action = None \<or> length (nullish (action_steps action) []) = 0 then
        (nullish (action_description action) ''No steps available'', action)
      else
        let sorted = js_sort (\<lambda>a b. step_order a - step_order b) (nullish (action_steps action) []);
            action' = action\<lparr>action_steps := Some sorted\<rparr>;
            steps = join (nl @ nl) (map format_step sorted);
            formatted =
              action_name action @ nl
              @ replicate (length (action_name action)) CHR ''='' @ nl @ nl
              @ (if truthy_string (action_description action)
                 then nullish (action_description action) [] @ nl @ nl else [])
              @ (case action_urgency action of
                   None \<Rightarrow> []
                 | Some urgency \<Rightarrow> ''Urgency: '' @ toUpperCase (urgency_string urgency) @ nl @ nl)
              @ ''Steps:'' @ nl @ steps @ nl
              @ (if truthy_string (action_estimatedDuration action)
                 then nl @ ''Estimated Duration: '' @ nullish (action_estimatedDuration action) [] @ nl
                 else [])
              @ (case action_contactInfo action of
                   None \<Rightarrow> []
                 | Some contactInfo \<Rightarrow> format_contact contactInfo)
        in (formatted, action'))"

text \<open>Two steps given out of order.\<close>

definition example_steps :: "ActionStep list" where
  "example_steps =
     [\<lparr>step_order = 2, step_instruction = ''Bring proof of identity'',
       step_requiresInput = None, step_inputFields = None\<rparr>,
      \<lparr>step_order = 1, step_instruction = ''Call the housing office'',
       step_requiresInput = None, step_inputFields = None\<rparr>]"

text \<open>A session state as the \<open>SessionState\<close> interface declares it, as far as the
  executor relies on it: an object whose \<open>completedActions\<close> member, when present, is an
  array of records.\<close>

fun wt_state :: "jsval \<Rightarrow> bool" where
  "wt_state (JObj _ kvs) =
     (case map_of kvs ''completedActions'' of
        None \<Rightarrow> True
      | Some JUndefined \<Rightarrow> True
      | Some JNull \<Rightarrow> True
      | Some (JArr _ xs) \<Rightarrow> list_all (\<lambda>a. case a of JObj _ _ \<Rightarrow> True | _ \<Rightarrow> False) xs
      | Some _ \<Rightarrow> False)"
| "wt_state _ = False"

definition example_state :: jsval where
  "example_state =
     JObj 0 [(''sessionId'', JStr ''s1''),
             (''user'', JObj 1 [(''age'', JNum (Fin 30))]),
             (''completedActions'', JArr 2 [JObj 3 [(''actionId'', JStr ''a1'')]])]"

definition example_actions :: "ActionTemplate list" where
  "example_actions =
     [(example_action ''a1'')\<lparr>action_urgency := Some Low\<rparr>,
      (example_action ''a2'')\<lparr>action_urgency := Some Critical\<rparr>,
      example_action ''a3'',
      (example_action ''a4'')\<lparr>action_urgency := Some High\<rparr>,
      (example_action ''a5'')\<lparr>action_urgency := Some Medium\<rparr>]"

section \<open>Properties of the rule evaluator\<close>

subsection \<open>Path resolution\<close>

lemma js_guard:
  "truthy v \<and> typeof v = TObject \<longleftrightarrow>
     (\<exists>a xs. v = JArr a xs) \<or> (\<exists>a kvs. v = JObj a kvs) \<or> v = JObjectPrototype
     \<or> v = JArrayPrototype"
  by (cases v) auto

lemma guard_in:
  "truthy v \<and> typeof v = TObject \<Longrightarrow> js_in k v = Inr (find_member v k \<noteq> None)"
  by (cases v) simp_all

lemma guard_get: "truthy v \<and> typeof v = TObject \<Longrightarrow> js_get v k = Inr (js_member v k)"
  by (cases v) (simp_all add: js_get_def js_member_def is_nullish_def)

lemma walk_step:
  "truthy v \<and> typeof v = TObject \<Longrightarrow>
   walk (p # ps) v = (case find_member v p of None \<Rightarrow> Inr JUndefined | Some x \<Rightarrow> walk ps x)"
  by (simp add: guard_in guard_get js_member_def split: option.splits)

lemma walk_no_object:
  "\<not> (truthy v \<and> typeof v = TObject) \<Longrightarrow> walk (p # ps) v = Inr JUndefined"
  by auto

lemma walk_total: "\<exists>r. walk parts v = Inr r"
proof (induction parts arbitrary: v)
  case Nil
  show ?case by simp
next
  case (Cons part parts)
  show ?case
  proof (cases "truthy v \<and> typeof v = TObject")
    case False
    then have "walk (part # parts) v = Inr JUndefined" by (rule walk_no_object)
    then show ?thesis by simp
  next
    case True
    show ?thesis
    proof (cases "find_member v part")
      case None
      with True show ?thesis by (simp only: walk_step) simp
    next
      case (Some x)
      with True Cons.IH [of x] show ?thesis by (simp only: walk_step) simp
    qed
  qed
qed

lemma getFieldValue_total: "\<exists>r. getFieldValue path st = Inr r"
  by (simp add: getFieldValue_def walk_total)







lemma has_member_no_object: "\<not> (truthy v \<and> typeof v = TObject) \<Longrightarrow> \<not> has_member v k"
  by (cases v) simp_all






subsection \<open>Condition groups\<close>

text \<open>
  Claim C1.  A condition group whose rules list is empty or absent and whose nested list
  is empty or absent evaluates to false, whatever its type: \<open>all\<close>, \<open>any\<close> or \<open>none\<close>
  (and a type outside the three as well).
\<close>

theorem evaluateConditions_empty_group_false:
  "nullish rs [] = [] \<Longrightarrow> nullish ns [] = [] \<Longrightarrow>
   evaluateConditions (RightRuleConditions t rs ns) st = Inr False"
  by (cases t) simp_all

theorem evaluateConditions_empty_group_false_witness:
  "nullish (Some []) [] = ([] :: RightRuleConditionRule list)
   \<and> nullish None [] = ([] :: RightRuleConditions list)
   \<and> evaluateConditions (RightRuleConditions All (Some []) None) (JObj 0 []) = Inr False
   \<and> evaluateConditions (RightRuleConditions Any None (Some [])) (JObj 0 []) = Inr False
   \<and> evaluateConditions (RightRuleConditions None' (Some []) (Some [])) (JObj 0 []) = Inr False"
  using evaluateConditions_empty_group_false [of "Some []" None All "JObj 0 []"]
    evaluateConditions_empty_group_false [of None "Some []" Any "JObj 0 []"]
    evaluateConditions_empty_group_false [of "Some []" "Some []" None' "JObj 0 []"]
  by (simp add: nullish_def)

subsection \<open>Operators\<close>

text \<open>
  Claim C8.  When the \<open>value\<close> of an atomic condition is not an array, the condition
  evaluates to false with the operator \<open>in\<close> and to false with the operator \<open>notIn\<close>,
  on every session state: here \<open>notIn\<close> is not the negation of \<open>in\<close>.
\<close>

theorem evaluateConditionRule_in_notIn_non_array:
  "\<not> isArray (value rule) \<Longrightarrow>
   evaluateConditionRule (rule\<lparr>operator := In\<rparr>) st = Inr False \<and>
   evaluateConditionRule (rule\<lparr>operator := NotIn\<rparr>) st = Inr False"
  using getFieldValue_total [of "field rule" st]
  by (auto simp: evaluateConditionRule_def isArray_def)

theorem evaluateConditionRule_in_notIn_non_array_witness:
  "\<not> isArray (JStr ''dog'')
   \<and> evaluateConditionRule \<lparr>field = ''pet'', operator = In, value = JStr ''dog''\<rparr>
        (JObj 0 [(''pet'', JStr ''dog'')]) = Inr False
   \<and> evaluateConditionRule \<lparr>field = ''pet'', operator = NotIn, value = JStr ''dog''\<rparr>
        (JObj 0 [(''pet'', JStr ''dog'')]) = Inr False"
  using evaluateConditionRule_in_notIn_non_array
    [of "\<lparr>field = ''pet'', operator = Equals, value = JStr ''dog''\<rparr>"
        "JObj 0 [(''pet'', JStr ''dog'')]"]
  by (simp add: isArray_def)

text \<open>
  Claim C10.  The field of the condition resolves to some value \<open>v\<close>; \<open>exists\<close> is true
  exactly when \<open>v\<close> is neither \<open>undefined\<close> nor \<open>null\<close>, and \<open>notExists\<close> is the
  negation of \<open>exists\<close> on the same rule and state.
\<close>

theorem exists_notExists_semantics:
  "\<exists>v. getFieldValue (field rule) st = Inr v
     \<and> evaluateConditionRule (rule\<lparr>operator := Exists\<rparr>) st
         = Inr (v \<noteq> JUndefined \<and> v \<noteq> JNull)
     \<and> evaluateConditionRule (rule\<lparr>operator := NotExists\<rparr>) st
         = Inr (\<not> (v \<noteq> JUndefined \<and> v \<noteq> JNull))"
  using getFieldValue_total [of "field rule" st]
  by (auto simp: evaluateConditionRule_def)

text \<open>A field that is explicitly \<open>null\<close> does not exist.\<close>

lemma exists_null_example:
  "evaluateConditionRule \<lparr>field = ''user.age'', operator = Exists, value = JUndefined\<rparr>
     (JObj 0 [(''user'', JObj 1 [(''age'', JNull)])]) = Inr False
   \<and> evaluateConditionRule \<lparr>field = ''user.age'', operator = NotExists, value = JUndefined\<rparr>
     (JObj 0 [(''user'', JObj 1 [(''age'', JNull)])]) = Inr True"
  by (simp add: evaluateConditionRule_def getFieldValue_def js_get_def js_member_def is_nullish_def)

subsection \<open>Rule resolution\<close>

lemma insert_sorted_key:
  assumes "\<And>x y. cmp x y \<le> 0 \<longleftrightarrow> k x \<le> k y"
  shows "insert_sorted cmp x xs = insort_key k x xs"
  by (induction xs) (simp_all add: assms)

lemma js_sort_key:
  assumes "\<And>x y. cmp x y \<le> 0 \<longleftrightarrow> k x \<le> (k y :: int)"
  shows "js_sort cmp xs = sort_key k xs"
proof -
  have "insert_sorted cmp = insort_key k"
    using insert_sorted_key [of cmp k, OF assms] by (intro ext)
  then show ?thesis by (simp add: js_sort_def sort_key_def)
qed

lemma evaluateRule_iff:
  "evaluateRule r st \<longleftrightarrow> evaluateConditions (rule_conditions r) st = Inr True"
  by (auto simp: evaluateRule_def split: sum.splits)

text \<open>
  Claim C2.  \<open>evaluateRules\<close> returns exactly the rules whose condition tree evaluates
  to true (as a multiset: each as often as it occurs in the input), in descending order
  of priority with an absent priority counting as 0, and the matched rules of any one
  priority appear in their order in the input list.
\<close>

theorem evaluateRules_priority_stable:
  "mset (evaluateRules rs st) =
     mset (filter (\<lambda>r. evaluateConditions (rule_conditions r) st = Inr True) rs)
   \<and> sorted_wrt (\<lambda>a b. nullish (rule_priority a) 0 \<ge> nullish (rule_priority b) 0)
        (evaluateRules rs st)
   \<and> (\<forall>p. filter (\<lambda>r. nullish (rule_priority r) 0 = p) (evaluateRules rs st) =
            filter (\<lambda>r. nullish (rule_priority r) 0 = p)
              (filter (\<lambda>r. evaluateConditions (rule_conditions r) st = Inr True) rs))"
proof -
  let ?m = "\<lambda>r. evaluateConditions (rule_conditions r) st = Inr True"
  let ?prio = "\<lambda>r. nullish (rule_priority r) (0::int)"
  let ?k = "\<lambda>r. - ?prio r"
  have sort: "js_sort (\<lambda>a b. ?prio b - ?prio a) rs = sort_key ?k rs"
    by (rule js_sort_key) simp
  have res: "evaluateRules rs st = sort_key ?k (filter ?m rs)"
    by (simp add: evaluateRules_def sort evaluateRule_iff filter_sort)
  have a: "mset (evaluateRules rs st) = mset (filter ?m rs)"
    by (simp add: res)
  have "sorted (map ?k (sort_key ?k (filter ?m rs)))"
    by (rule sorted_sort_key)
  then have b: "sorted_wrt (\<lambda>a b. ?prio a \<ge> ?prio b) (evaluateRules rs st)"
    by (simp add: res sorted_map)
  have c: "filter (\<lambda>r. ?prio r = p) (evaluateRules rs st) =
           filter (\<lambda>r. ?prio r = p) (filter ?m rs)" for p
  proof -
    have "filter (\<lambda>r. ?k r = - p) (sort_key ?k (filter ?m rs)) =
          filter (\<lambda>r. ?k r = - p) (filter ?m rs)"
      by (rule sort_key_stable)
    then show ?thesis by (simp add: res)
  qed
  from a b c show ?thesis by blast
qed

section \<open>Properties of the content pack loader\<close>

subsection \<open>The version pattern\<close>

lemma not_digit_dot: "\<not> is_digit CHR ''.''"
  by (simp add: is_digit_def)

lemma digits1_append:
  assumes "a \<noteq> []" "list_all is_digit a" "r = [] \<or> \<not> is_digit (hd r)"
  shows "digits1 (a @ r) = Some r"
proof -
  from assms(1) obtain c cs where a: "a = c # cs" by (cases a) auto
  with assms(2) have c: "is_digit c" and cs: "\<forall>x\<in>set cs. is_digit x"
    by (auto simp: list_all_iff)
  from assms(3) have "dropWhile is_digit r = r" by (cases r) auto
  with cs have "dropWhile is_digit (cs @ r) = r" by (simp add: dropWhile_append)
  with a c show ?thesis by (simp add: digits1_def)
qed

lemma digits1_SomeD:
  assumes "digits1 s = Some r"
  shows "\<exists>a. s = a @ r \<and> a \<noteq> [] \<and> list_all is_digit a"
proof -
  from assms obtain c cs where s: "s = c # cs" "is_digit c" "r = dropWhile is_digit cs"
    by (cases s) (auto simp: digits1_def split: if_splits)
  let ?a = "c # takeWhile is_digit cs"
  have "s = ?a @ r" using s by simp
  moreover have "list_all is_digit ?a"
    using s(2) by (auto simp: list_all_iff dest: set_takeWhileD)
  ultimately show ?thesis by blast
qed

lemma dot_Some: "dot s = Some r \<longleftrightarrow> s = CHR ''.'' # r"
  by (cases s) (auto simp: dot_def)

lemma versionRegex_test_iff:
  "versionRegex_test s \<longleftrightarrow>
     (\<exists>a b c. s = a @ ''.'' @ b @ ''.'' @ c \<and> a \<noteq> [] \<and> b \<noteq> [] \<and> c \<noteq> []
              \<and> list_all is_digit a \<and> list_all is_digit b \<and> list_all is_digit c)"
proof
  assume "versionRegex_test s"
  then obtain r1 r2 r3 r4 where
    "digits1 s = Some r1" "dot r1 = Some r2" "digits1 r2 = Some r3" "dot r3 = Some r4"
    "digits1 r4 = Some []"
    by (auto simp: versionRegex_test_def bind_eq_Some_conv split: option.splits)
  moreover from this obtain a b c where
    "s = a @ r1" "a \<noteq> []" "list_all is_digit a"
    "r2 = b @ r3" "b \<noteq> []" "list_all is_digit b"
    "r4 = c @ []" "c \<noteq> []" "list_all is_digit c"
    by (meson digits1_SomeD)
  ultimately have "s = a @ ''.'' @ b @ ''.'' @ c" by (simp add: dot_Some)
  with \<open>a \<noteq> []\<close> \<open>b \<noteq> []\<close> \<open>c \<noteq> []\<close> \<open>list_all is_digit a\<close> \<open>list_all is_digit b\<close>
    \<open>list_all is_digit c\<close>
  show "\<exists>a b c. s = a @ ''.'' @ b @ ''.'' @ c \<and> a \<noteq> [] \<and> b \<noteq> [] \<and> c \<noteq> []
              \<and> list_all is_digit a \<and> list_all is_digit b \<and> list_all is_digit c"
    by blast
next
  assume "\<exists>a b c. s = a @ ''.'' @ b @ ''.'' @ c \<and> a \<noteq> [] \<and> b \<noteq> [] \<and> c \<noteq> []
              \<and> list_all is_digit a \<and> list_all is_digit b \<and> list_all is_digit c"
  then obtain a b c where s: "s = a @ (CHR ''.'' # b @ (CHR ''.'' # c))"
    and n: "a \<noteq> []" "b \<noteq> []" "c \<noteq> []"
    and d: "list_all is_digit a" "list_all is_digit b" "list_all is_digit c"
    by auto
  have 1: "digits1 s = Some (CHR ''.'' # b @ (CHR ''.'' # c))"
    unfolding s using n(1) d(1) by (rule digits1_append) (simp add: not_digit_dot)
  have 2: "digits1 (b @ (CHR ''.'' # c)) = Some (CHR ''.'' # c)"
    using n(2) d(2) by (rule digits1_append) (simp add: not_digit_dot)
  have 3: "digits1 (c @ []) = Some []"
    using n(3) d(3) by (rule digits1_append) simp
  show "versionRegex_test s"
    using 1 2 3 by (simp add: versionRegex_test_def dot_def)
qed

text \<open>The version that lacks its patch segment does not match.\<close>

lemma versionRegex_test_examples:
  "versionRegex_test ''1.0.0''" "\<not> versionRegex_test ''1.0''" "\<not> versionRegex_test ''1.0.0-beta''"
  by (simp_all add: versionRegex_test_def digits1_def dot_def is_digit_def)

subsection \<open>Validation and the map of packs\<close>

lemma duplicates_loop:
  "fold (\<lambda>item (ids, duplicates).
           (insert item ids, if item \<in> ids then duplicates @ [item] else duplicates))
        items (S, D) = (S', D')
   \<Longrightarrow> (D' = [] \<longleftrightarrow> D = [] \<and> distinct items \<and> set items \<inter> S = {})"
proof (induction items arbitrary: S D)
  case Nil
  then show ?case by auto
next
  case (Cons x xs)
  show ?case
  proof (cases "x \<in> S")
    case True
    with Cons.prems Cons.IH [of "insert x S" "D @ [x]"] show ?thesis by auto
  next
    case False
    with Cons.prems Cons.IH [of "insert x S" D] show ?thesis by auto
  qed
qed

lemma checkDuplicateIds_distinct: "checkDuplicateIds items ty = Inr () \<longleftrightarrow> distinct items"
proof -
  obtain S' D' where f:
    "fold (\<lambda>item (ids, duplicates).
             (insert item ids, if item \<in> ids then duplicates @ [item] else duplicates))
          items ({}, []) = (S', D')"
    by (cases "fold (\<lambda>item (ids, duplicates).
             (insert item ids, if item \<in> ids then duplicates @ [item] else duplicates))
          items ({}::string set, []::string list)") auto
  from duplicates_loop [OF f] have "D' = [] \<longleftrightarrow> distinct items" by simp
  with f show ?thesis by (simp add: checkDuplicateIds_def)
qed

lemma checkDuplicateIds_error:
  "checkDuplicateIds items ty = Inl e \<Longrightarrow> \<exists>msg. e = Error msg \<and> msg \<noteq> []"
  by (auto simp: checkDuplicateIds_def Let_def split: prod.splits if_splits)

lemma bindE_Inr_iff: "bindE x f = Inr b \<longleftrightarrow> (\<exists>a. x = Inr a \<and> f a = Inr b)"
  by (cases x) (simp_all add: bindE_def)

lemma validateContentPack_valid: "validateContentPack pack = Inr () \<longleftrightarrow> valid_pack pack"
proof (cases "pack_version pack")
  case None
  then show ?thesis
    by (simp add: validateContentPack_def valid_pack_def not_string_def)
next
  case (Some v)
  then show ?thesis
    by (simp add: validateContentPack_def valid_pack_def bindE_Inr_iff
                  checkDuplicateIds_distinct nullish_def)
qed

lemma validateContentPack_error:
  "validateContentPack pack = Inl e \<Longrightarrow> \<exists>msg. e = Error msg \<and> msg \<noteq> []"
  by (auto simp: validateContentPack_def bindE_def split: if_splits sum.splits
           dest: checkDuplicateIds_error)

lemma list_all_update:
  "P (k, v) \<Longrightarrow> list_all P al \<Longrightarrow> list_all P (AList.update k v al)"
  by (induction al) auto

lemma list_all_delete: "list_all P al \<Longrightarrow> list_all P (AList.delete k al)"
  by (induction al) auto

lemma loadContentPack_all_valid:
  "all_valid this \<Longrightarrow> all_valid (snd (loadContentPack this pack))"
proof (cases "validateContentPack pack")
  case (Inl e)
  assume "all_valid this"
  with Inl show ?thesis by (simp add: loadContentPack_def)
next
  case (Inr u)
  assume a: "all_valid this"
  from Inr have "valid_pack pack" using validateContentPack_valid [of pack] by simp
  with a Inr show ?thesis
    by (simp add: loadContentPack_def all_valid_def list_all_update)
qed

lemma exec_all_valid: "all_valid this \<Longrightarrow> all_valid (snd (exec this op))"
proof (cases op)
  case (LoadContentPack pack)
  assume "all_valid this"
  then have "all_valid (snd (loadContentPack this pack))" by (rule loadContentPack_all_valid)
  with LoadContentPack show ?thesis by (auto split: prod.splits sum.splits)
next
  case (LoadContentPackFromUrl response)
  assume a: "all_valid this"
  show ?thesis
  proof (cases response)
    case (Inl e)
    with a LoadContentPackFromUrl show ?thesis by (simp add: loadContentPackFromUrl_def)
  next
    case (Inr pack)
    from a have "all_valid (snd (loadContentPack this pack))" by (rule loadContentPack_all_valid)
    with Inr LoadContentPackFromUrl show ?thesis
      by (auto simp: loadContentPackFromUrl_def split: prod.splits sum.splits)
  qed
next
  case ClearAll
  then show ?thesis by (simp add: clearAll_def all_valid_def)
next
  case (RemoveContentPack packId)
  assume "all_valid this"
  with RemoveContentPack show ?thesis
    by (simp add: removeContentPack_def all_valid_def list_all_delete)
qed simp_all

lemma run_all_valid: "all_valid this \<Longrightarrow> all_valid (run this ops)"
proof (induction ops arbitrary: this)
  case Nil
  then show ?case by (simp add: run_def)
next
  case (Cons op ops)
  from Cons.prems have "all_valid (snd (exec this op))" by (rule exec_all_valid)
  then have "all_valid (run (snd (exec this op)) ops)" by (rule Cons.IH)
  then show ?case by (simp add: run_def)
qed

lemma all_valid_member:
  "all_valid this \<Longrightarrow> (k, pack) \<in> set (loadedPacks this) \<Longrightarrow> k = pack_id pack \<and> valid_pack pack"
  by (auto simp: all_valid_def list_all_iff)

text \<open>
  Claim C4.  When a pack fails validation (a required member is missing or empty, the
  version does not have the form digits.digits.digits, or an id occurs twice in one of
  the four collections), \<open>loadContentPack\<close> raises an \<open>Error\<close> with a non-empty message
  and leaves the loader, and so its map of packs, as it was.
\<close>

theorem loadContentPack_rejects_invalid:
  "\<not> valid_pack pack \<Longrightarrow>
   \<exists>msg. msg \<noteq> [] \<and> loadContentPack this pack = (Inl (Error msg), this)"
proof -
  assume "\<not> valid_pack pack"
  then have "validateContentPack pack \<noteq> Inr ()" by (simp add: validateContentPack_valid)
  then obtain e where e: "validateContentPack pack = Inl e"
    by (cases "validateContentPack pack") auto
  then obtain msg where "e = Error msg" "msg \<noteq> []"
    using validateContentPack_error by blast
  with e show ?thesis by (simp add: loadContentPack_def)
qed

theorem loadContentPack_rejects_invalid_witness:
  "\<not> valid_pack (example_pack\<lparr>pack_actions := Some [example_action ''a1'', example_action ''a1'']\<rparr>)
   \<and> (\<exists>msg. msg \<noteq> [] \<and>
         loadContentPack \<lparr>loadedPacks = [(Some ''london'', example_pack)]\<rparr>
           (example_pack\<lparr>pack_actions := Some [example_action ''a1'', example_action ''a1'']\<rparr>)
         = (Inl (Error msg), \<lparr>loadedPacks = [(Some ''london'', example_pack)]\<rparr>))"
  using loadContentPack_rejects_invalid
    [of "example_pack\<lparr>pack_actions := Some [example_action ''a1'', example_action ''a1'']\<rparr>"
        "\<lparr>loadedPacks = [(Some ''london'', example_pack)]\<rparr>"]
  by (simp add: valid_pack_def example_pack_def example_action_def nullish_def)

lemma loadContentPack_examples:
  "loadContentPack new_ContentPackLoader
     (example_pack\<lparr>pack_actions := Some [example_action ''a1'', example_action ''a1'']\<rparr>)
   = (Inl (Error ''Duplicate actions IDs found in content pack: a1''), new_ContentPackLoader)"
  "loadContentPack new_ContentPackLoader (example_pack\<lparr>pack_version := Some ''1.0''\<rparr>)
   = (Inl (Error ''Content pack version must follow semantic versioning (e.g., 1.0.0)''),
      new_ContentPackLoader)"
  "loadContentPack new_ContentPackLoader example_pack
   = (Inr (), \<lparr>loadedPacks = [(Some ''london'', example_pack)]\<rparr>)"
  by (simp_all add: loadContentPack_def validateContentPack_def example_pack_def
        example_action_def not_string_def versionRegex_test_def digits1_def dot_def is_digit_def
        checkDuplicateIds_def bindE_def nullish_def new_ContentPackLoader_def)

text \<open>
  Claim C9.  Every operation of the loader preserves that each entry of the map is a
  valid pack stored under its own id.  Hence after any sequence of operations on a new
  loader, a pack returned by \<open>getContentPack\<close> or listed by \<open>getAllContentPacks\<close> is
  valid.
\<close>

theorem loader_invariant:
  "(all_valid this \<longrightarrow> all_valid (snd (exec this op)))
   \<and> all_valid (run new_ContentPackLoader ops)
   \<and> (getContentPack (run new_ContentPackLoader ops) packId = Some pack
        \<longrightarrow> valid_pack pack \<and> pack_id pack = Some packId)
   \<and> (pack \<in> set (getAllContentPacks (run new_ContentPackLoader ops)) \<longrightarrow> valid_pack pack)"
proof -
  have init: "all_valid new_ContentPackLoader"
    by (simp add: all_valid_def new_ContentPackLoader_def)
  then have r: "all_valid (run new_ContentPackLoader ops)" by (rule run_all_valid)
  have g: "valid_pack pack \<and> pack_id pack = Some packId"
    if "getContentPack (run new_ContentPackLoader ops) packId = Some pack"
  proof -
    from that have "(Some packId, pack) \<in> set (loadedPacks (run new_ContentPackLoader ops))"
      by (simp add: getContentPack_def map_of_SomeD)
    with r show ?thesis using all_valid_member by fastforce
  qed
  have a: "valid_pack pack" if "pack \<in> set (getAllContentPacks (run new_ContentPackLoader ops))"
  proof -
    from that obtain k where "(k, pack) \<in> set (loadedPacks (run new_ContentPackLoader ops))"
      by (auto simp: getAllContentPacks_def)
    with r show ?thesis using all_valid_member by blast
  qed
  from r g a show ?thesis by (simp add: exec_all_valid)
qed

theorem loader_invariant_witness:
  "all_valid \<lparr>loadedPacks = [(Some ''london'', example_pack)]\<rparr>
   \<and> all_valid (snd (exec \<lparr>loadedPacks = [(Some ''london'', example_pack)]\<rparr>
                    (LoadContentPack (example_pack\<lparr>pack_version := Some ''1.0''\<rparr>))))
   \<and> getContentPack
        (run new_ContentPackLoader
           [LoadContentPack example_pack,
            LoadContentPack (example_pack\<lparr>pack_version := Some ''1.0''\<rparr>),
            GetRules ''london'', RemoveContentPack ''paris''])
        ''london'' = Some example_pack
   \<and> example_pack \<in> set (getAllContentPacks
        (run new_ContentPackLoader
           [LoadContentPack example_pack,
            LoadContentPack (example_pack\<lparr>pack_version := Some ''1.0''\<rparr>),
            GetRules ''london'', RemoveContentPack ''paris'']))
   \<and> valid_pack example_pack"
proof -
  let ?ops = "[LoadContentPack example_pack,
            LoadContentPack (example_pack\<lparr>pack_version := Some ''1.0''\<rparr>),
            GetRules ''london'', RemoveContentPack ''paris'']"
  have l1: "loadContentPack new_ContentPackLoader example_pack
            = (Inr (), \<lparr>loadedPacks = [(Some ''london'', example_pack)]\<rparr>)"
    by (rule loadContentPack_examples(3))
  have l2: "loadContentPack \<lparr>loadedPacks = [(Some ''london'', example_pack)]\<rparr>
              (example_pack\<lparr>pack_version := Some ''1.0''\<rparr>)
            = (Inl (Error ''Content pack version must follow semantic versioning (e.g., 1.0.0)''),
               \<lparr>loadedPacks = [(Some ''london'', example_pack)]\<rparr>)"
    by (simp add: loadContentPack_def validateContentPack_def example_pack_def
        not_string_def versionRegex_test_def digits1_def dot_def is_digit_def nullish_def)
  have run: "run new_ContentPackLoader ?ops = \<lparr>loadedPacks = [(Some ''london'', example_pack)]\<rparr>"
    by (simp add: run_def l1 l2 removeContentPack_def)
  have v: "valid_pack example_pack"
    by (simp add: valid_pack_def example_pack_def not_string_def versionRegex_test_def
        digits1_def dot_def is_digit_def nullish_def)
  have av: "all_valid \<lparr>loadedPacks = [(Some ''london'', example_pack)]\<rparr>"
    using v by (simp add: all_valid_def example_pack_def)
  show ?thesis
    using loader_invariant [of "\<lparr>loadedPacks = [(Some ''london'', example_pack)]\<rparr>"
        "LoadContentPack (example_pack\<lparr>pack_version := Some ''1.0''\<rparr>)" ?ops "''london''" example_pack]
      av v
    by (simp add: run getContentPack_def getAllContentPacks_def)
qed

section \<open>Properties of the action executor\<close>

lemma sequence_map_Inr: "sequence (map Inr ys) = Inr ys"
  by (induction ys) simp_all

lemma sequence_InrD: "sequence xs = Inr ys \<Longrightarrow> xs = map Inr ys"
proof (induction xs arbitrary: ys)
  case Nil
  then show ?case by simp
next
  case (Cons x xs)
  from Cons.prems obtain a as where "x = Inr a" "sequence xs = Inr as" "ys = a # as"
    by (auto split: sum.splits)
  with Cons.IH [of as] show ?case by simp
qed

lemma sequence_total:
  assumes "\<And>x. x \<in> set xs \<Longrightarrow> \<exists>y. f x = Inr y"
  shows "\<exists>ys. sequence (map f xs) = Inr ys"
  using assms
proof (induction xs)
  case Nil
  show ?case by simp
next
  case (Cons x xs)
  then obtain y ys where "f x = Inr y" "sequence (map f xs) = Inr ys"
    by (meson list.set_intros)
  then show ?case by simp
qed

lemma forEach_total:
  assumes "\<And>x s. \<exists>s'. f x s = Inr s'"
  shows "\<exists>s'. forEach f xs s = Inr s'"
proof (induction xs arbitrary: s)
  case Nil
  show ?case by simp
next
  case (Cons x xs)
  obtain s1 where "f x s = Inr s1" using assms by blast
  with Cons.IH [of s1] show ?case by (simp add: bindE_def)
qed

lemma wt_state_object: "wt_state st \<Longrightarrow> \<exists>b. js_get st k = Inr b"
  by (cases st) (simp_all add: js_get_def js_member_def is_nullish_def)

lemma hasRequiredInfo_total: "wt_state st \<Longrightarrow> \<exists>b. hasRequiredInfo info st = Inr b"
proof -
  assume w: "wt_state st"
  obtain u s where "js_get st ''user'' = Inr u" "js_get st ''situation'' = Inr s"
    using wt_state_object [OF w] by blast
  then show ?thesis by (auto simp: hasRequiredInfo_def bindE_def Let_def)
qed

lemma completedActionIds_total: "wt_state st \<Longrightarrow> \<exists>ids. completedActionIds st = Inr ids"
proof (cases st)
  case (JObj a kvs)
  assume w: "wt_state st"
  show ?thesis
  proof (cases "map_of kvs ''completedActions''")
    case None
    with JObj show ?thesis
      by (simp add: completedActionIds_def bindE_def js_get_def js_member_def is_nullish_def
            object_prototype_member_def object_prototype_keys_def)
  next
    case (Some c)
    show ?thesis
    proof (cases c)
      case (JArr b xs)
      with w JObj Some have "list_all (\<lambda>a. case a of JObj _ _ \<Rightarrow> True | _ \<Rightarrow> False) xs"
        by simp
      then have "\<exists>y. js_get x ''actionId'' = Inr y" if "x \<in> set xs" for x
        using that by (cases x) (auto simp: list_all_iff js_get_def js_member_def is_nullish_def)
      then obtain ids where "sequence (map (\<lambda>a. js_get a ''actionId'') xs) = Inr ids"
        using sequence_total [of xs "\<lambda>a. js_get a ''actionId''"] by blast
      with JObj Some JArr show ?thesis
        by (simp add: completedActionIds_def bindE_def js_get_def js_member_def is_nullish_def)
    qed (use w JObj Some in \<open>simp_all add: completedActionIds_def bindE_def js_get_def js_member_def is_nullish_def\<close>)
  qed
qed simp_all

lemma prepareAction_total: "wt_state st \<Longrightarrow> \<exists>p. prepareAction action st = Inr p"
proof -
  assume w: "wt_state st"
  have 1: "\<exists>m. (case action_requiredInformation action of
              None \<Rightarrow> Inr []
            | Some requiredInformation \<Rightarrow>
                forEach (\<lambda>info missingInformation.
                           bindE (hasRequiredInfo info st)
                             (\<lambda>has. Inr (if \<not> has then missingInformation @ [info]
                                          else missingInformation)))
                        requiredInformation []) = Inr m"
  proof (cases "action_requiredInformation action")
    case None
    then show ?thesis by simp
  next
    case (Some infos)
    have "\<exists>s'. bindE (hasRequiredInfo info st)
                 (\<lambda>has. Inr (if \<not> has then s @ [info] else s)) = Inr s'" for info s
      using hasRequiredInfo_total [OF w, of info] by (auto simp: bindE_def)
    then show ?thesis using Some
      by (simp add: forEach_total)
  qed
  have 2: "\<exists>m'. (case action_prerequisites action of
              None \<Rightarrow> Inr m
            | Some prerequisites \<Rightarrow>
                if length prerequisites > 0 then
                  bindE (completedActionIds st)
                    (\<lambda>ids. forEach (\<lambda>prereqId missingInformation.
                                      Inr (if \<not> array_includes ids (JStr prereqId)
                                           then missingInformation
                                                @ [''Prerequisite action: '' @ prereqId]
                                           else missingInformation))
                                   prerequisites m)
                else Inr m) = Inr m'" for m
  proof (cases "action_prerequisites action")
    case None
    then show ?thesis by simp
  next
    case (Some ps)
    obtain ids where "completedActionIds st = Inr ids"
      using completedActionIds_total [OF w] by blast
    then show ?thesis using Some
      by (simp add: bindE_def forEach_total)
  qed
  from 1 obtain m where m: "(case action_requiredInformation action of
              None \<Rightarrow> Inr []
            | Some requiredInformation \<Rightarrow>
                forEach (\<lambda>info missingInformation.
                           bindE (hasRequiredInfo info st)
                             (\<lambda>has. Inr (if \<not> has then missingInformation @ [info]
                                          else missingInformation)))
                        requiredInformation []) = Inr m" by blast
  from 2 [of m] obtain m' where "(case action_prerequisites action of
              None \<Rightarrow> Inr m
            | Some prerequisites \<Rightarrow>
                if length prerequisites > 0 then
                  bindE (completedActionIds st)
                    (\<lambda>ids. forEach (\<lambda>prereqId missingInformation.
                                      Inr (if \<not> array_includes ids (JStr prereqId)
                                           then missingInformation
                                                @ [''Prerequisite action: '' @ prereqId]
                                           else missingInformation))
                                   prerequisites m)
                else Inr m) = Inr m'" by blast
  with m show ?thesis by (simp add: prepareAction_def bindE_def)
qed

lemma prepareAction_canExecute:
  "prepareAction action st = Inr p \<Longrightarrow> canExecute p = (missingInformation p = [])"
  by (auto simp: prepareAction_def bindE_def split: sum.splits)

text \<open>
  Claim C5.  On a session state of the declared shape \<open>prepareAction\<close> and
  \<open>executeAction\<close> return, and the status of the result is \<open>pending\<close> when
  \<open>canExecute\<close> is false, with the message \<open>Missing required information:\<close> followed by
  the missing items separated by commas; otherwise \<open>pending\<close> when the urgency is
  \<open>critical\<close> or \<open>high\<close>; otherwise \<open>completed\<close>.  No other status occurs.
\<close>

theorem executeAction_status:
  "wt_state st \<Longrightarrow>
   \<exists>prepared r.
     prepareAction action st = Inr prepared \<and> executeAction now action st = Inr r
     \<and> actionId r = action_id action
     \<and> status r =
         (if \<not> canExecute prepared then Pending
          else if action_urgency action = Some Critical \<or> action_urgency action = Some High
               then Pending
          else Completed)
     \<and> (canExecute prepared \<or>
          message r = Some (''Missing required information: ''
                            @ join '', '' (missingInformation prepared)))
     \<and> (status r = Pending \<or> status r = Completed)"
proof -
  assume "wt_state st"
  then obtain p where p: "prepareAction action st = Inr p"
    using prepareAction_total by blast
  then show ?thesis by (simp add: executeAction_def bindE_def)
qed


theorem executeAction_status_witness:
  "wt_state example_state
   \<and> executeAction ''t0'' ((example_action ''a3'')\<lparr>action_prerequisites := Some [''a1'', ''a7'']\<rparr>)
        example_state
       = Inr \<lparr>actionId = ''a3'', status = Pending,
              message = Some ''Missing required information: Prerequisite action: a7'',
              timestamp = ''t0'', outcome = None, notes = None\<rparr>
   \<and> executeAction ''t0'' ((example_action ''a4'')\<lparr>action_urgency := Some High\<rparr>) example_state
       = Inr \<lparr>actionId = ''a4'', status = Pending,
              message = Some ''Action prepared for execution. Follow the steps provided.'',
              timestamp = ''t0'', outcome = None, notes = None\<rparr>
   \<and> executeAction ''t0'' (example_action ''a1'') example_state
       = Inr \<lparr>actionId = ''a1'', status = Completed,
              message = Some ''Action executed successfully'',
              timestamp = ''t0'', outcome = None, notes = None\<rparr>"
  using executeAction_status
    [of example_state "(example_action ''a3'')\<lparr>action_prerequisites := Some [''a1'', ''a7'']\<rparr>"
        "''t0''"]
  by (simp add: example_state_def example_action_def executeAction_def prepareAction_def
        completedActionIds_def bindE_def js_get_def js_member_def is_nullish_def array_includes_def)

lemma executeAction_total:
  "wt_state st \<Longrightarrow> \<exists>r. executeAction now action st = Inr r"
proof -
  assume "wt_state st"
  then obtain p where "prepareAction action st = Inr p"
    using prepareAction_total by blast
  then show ?thesis by (simp add: executeAction_def bindE_def)
qed

lemma executeAction_actionId:
  "executeAction now action st = Inr r \<Longrightarrow> actionId r = action_id action"
  by (auto simp: executeAction_def bindE_def split: sum.splits if_splits)

lemma map_Inr_project:
  assumes "map f zs = map Inr rs" and "\<And>z r. f z = Inr r \<Longrightarrow> g r = h z"
  shows "map g rs = map h zs"
  using assms
proof (induction zs arbitrary: rs)
  case Nil
  then show ?case by simp
next
  case (Cons z zs)
  then obtain r rs' where "rs = r # rs'" "f z = Inr r" "map f zs = map Inr rs'"
    by (cases rs) auto
  with Cons.IH [of rs'] Cons.prems(2) show ?case by simp
qed

text \<open>
  Claim C6.  On a session state of the declared shape \<open>executeActions\<close> returns the
  results of \<open>executeAction\<close> on the actions in a sorted order, one result for each
  action: the sorted list is a permutation of the input, ascending in the urgency rank
  (critical 0, high 1, medium 2, low 3, an absent urgency ranked as medium), and the
  actions of any one rank keep their order of the input.
\<close>

theorem executeActions_urgency_order:
  "wt_state st \<Longrightarrow>
   \<exists>sorted results.
     executeActions clock actions st = Inr results
     \<and> map Inr results =
         map (\<lambda>(i, action). executeAction (clock i) action st) (zip [0..<length sorted] sorted)
     \<and> map actionId results = map action_id sorted
     \<and> mset sorted = mset actions
     \<and> sorted_wrt (\<lambda>a b. urgencyOrder (nullish (action_urgency a) Medium)
                          \<le> urgencyOrder (nullish (action_urgency b) Medium)) sorted
     \<and> (\<forall>k. filter (\<lambda>a. urgencyOrder (nullish (action_urgency a) Medium) = k) sorted =
              filter (\<lambda>a. urgencyOrder (nullish (action_urgency a) Medium) = k) actions)"
proof -
  assume w: "wt_state st"
  let ?rank = "\<lambda>a. urgencyOrder (nullish (action_urgency a) Medium)"
  let ?sorted = "sort_key ?rank actions"
  let ?f = "\<lambda>(i, action). executeAction (clock i) action st"
  let ?zs = "zip [0..<length ?sorted] ?sorted"
  have sort: "js_sort (\<lambda>a b. ?rank a - ?rank b) actions = ?sorted"
    by (rule js_sort_key) simp
  have "\<exists>y. ?f z = Inr y" for z
    using executeAction_total [OF w] by (cases z) simp
  then obtain results where res: "sequence (map ?f ?zs) = Inr results"
    using sequence_total [of ?zs ?f] by blast
  then have m: "map ?f ?zs = map Inr results" by (rule sequence_InrD)
  have ids: "map actionId results = map (\<lambda>z. action_id (snd z)) ?zs"
    using m by (rule map_Inr_project) (auto dest: executeAction_actionId)
  have "map snd ?zs = ?sorted" by (rule map_snd_zip) simp
  then have "map action_id (map snd ?zs) = map action_id ?sorted" by (rule arg_cong)
  then have "map (\<lambda>z. action_id (snd z)) ?zs = map action_id ?sorted"
    by (simp only: map_map comp_def)
  with ids have ids': "map actionId results = map action_id ?sorted" by (rule trans)
  have e: "executeActions clock actions st = Inr results"
    using res by (simp add: executeActions_def sort)
  have s: "sorted_wrt (\<lambda>a b. ?rank a \<le> ?rank b) ?sorted"
    using sorted_sort_key [of ?rank actions] by (simp add: sorted_map)
  have st: "filter (\<lambda>a. ?rank a = k) ?sorted = filter (\<lambda>a. ?rank a = k) actions" for k
    by (rule sort_key_stable)
  from e m ids' s st show ?thesis
    by (intro exI [of _ ?sorted] exI [of _ results]) simp
qed

theorem executeActions_urgency_order_witness:
  "wt_state example_state
   \<and> (\<exists>results. executeActions (\<lambda>i. ''t'' @ nat_to_string i) example_actions example_state
                  = Inr results
        \<and> map actionId results = [''a2'', ''a4'', ''a3'', ''a5'', ''a1''])"
  using executeActions_urgency_order [of example_state "\<lambda>i. ''t'' @ nat_to_string i" example_actions]
  by (simp add: example_state_def example_actions_def example_action_def executeActions_def
        js_sort_def nullish_def executeAction_def prepareAction_def bindE_def upt_rec)

lemma formatActionSteps_action:
  "snd (formatActionSteps action) =
     action\<lparr>action_steps := map_option (sort_key step_order) (action_steps action)\<rparr>"
proof -
  have sort: "js_sort (\<lambda>a b. step_order a - step_order b) steps = sort_key step_order steps"
    for steps
    by (rule js_sort_key) simp
  show ?thesis
  proof (cases "action_steps action")
    case None
    then show ?thesis by (simp add: formatActionSteps_def)
  next
    case (Some steps)
    then show ?thesis
      by (cases steps) (simp_all add: formatActionSteps_def nullish_def Let_def sort)
  qed
qed

text \<open>
  Claim C7 does not hold of the code.  \<open>formatActionSteps\<close> sorts \<open>action.steps\<close> with
  \<open>Array.prototype.sort\<close>, which sorts the array in place: for an action whose steps are
  given with order 2 before order 1, the action is left with its steps reversed.
\<close>

theorem formatActionSteps_sorts_in_place:
  "action_steps (snd (formatActionSteps ((example_action ''a1'')\<lparr>action_steps := Some example_steps\<rparr>)))
     = Some (rev example_steps)
   \<and> snd (formatActionSteps ((example_action ''a1'')\<lparr>action_steps := Some example_steps\<rparr>))
       \<noteq> (example_action ''a1'')\<lparr>action_steps := Some example_steps\<rparr>"
  by (simp add: formatActionSteps_def example_action_def example_steps_def nullish_def
        js_sort_def Let_def)

text \<open>The text rendered for the same action lists step 1 first.\<close>

lemma formatActionSteps_example_text:
  "fst (formatActionSteps ((example_action ''a1'')\<lparr>action_steps := Some example_steps\<rparr>))
     = ''Call the council'' @ nl @ ''================'' @ nl @ nl @ ''Steps:'' @ nl
       @ ''1. Call the housing office'' @ nl @ nl @ ''2. Bring proof of identity'' @ nl"
  by (simp add: formatActionSteps_def example_action_def example_steps_def nullish_def
        js_sort_def Let_def format_step_def int_to_string_def nat_to_string.simps
        truthy_string_def not_string_def digit_char_def)

end
